theory Spec2Isabelle
  imports Main
begin

section \<open>JSON values and schema nodes\<close>

text \<open>
  The module \<^verbatim>\<open>referencing/jsonschema.py\<close> works on parsed JSON. A value of Python's
  \<^verbatim>\<open>Any\<close> is one of the six JSON kinds. Python's \<^verbatim>\<open>None\<close> is \<open>JNull\<close>: it is both
  the JSON null and what a function returns when it returns nothing. An object is an
  association list in insertion order (the order \<^verbatim>\<open>dict.values()\<close> follows), with no
  key twice, as in a Python dictionary; a string is
  a list of characters, one \<open>char\<close> for each character of the Python string. Numbers are
  never inspected by this module; they are integers here.
\<close>

datatype json =
    JNull
  | JBool bool
  | JNum int
  | JString string
  | JArray "json list"
  | JObject "(string \<times> json) list"

text \<open>\<^verbatim>\<open>ObjectSchema = Mapping[str, Any]\<close> and \<^verbatim>\<open>Schema = Union[bool, ObjectSchema]\<close>.\<close>

type_synonym ObjectSchema = "(string \<times> json) list"

datatype Schema =
    SBool bool
  | SObject ObjectSchema

type_synonym URI = string

text \<open>
  What can be raised: the two built-in exceptions that a call on a value of the wrong
  kind raises, and the module's own \<^verbatim>\<open>UnknownDialect\<close>, which carries the URI.
\<close>

datatype error =
    TypeError
  | AttributeError
  | UnknownDialect URI

section \<open>The classes imported from the referencing package\<close>

text \<open>
  \<^verbatim>\<open>Anchor\<close>, \<^verbatim>\<open>Resource\<close>, \<^verbatim>\<open>Specification\<close> and \<^verbatim>\<open>Registry\<close> are imported by the module
  and are not part of its source. Their fields are those the module reads and writes.
  A field \<^verbatim>\<open>f\<close> of \<^verbatim>\<open>Resource\<close> is \<open>resource_f\<close> and of \<^verbatim>\<open>Anchor\<close> is \<open>anchor_f\<close>, since
  \<^verbatim>\<open>contents\<close> and \<^verbatim>\<open>resource\<close> are also local variables of the module.

  A \<^verbatim>\<open>Specification\<close> holds a function that takes a \<^verbatim>\<open>Specification\<close>, which no HOL
  type can do. The type \<open>'s\<close> stands for the specification object handed to
  \<^verbatim>\<open>anchors_in\<close>, and everything below holds for every \<open>'s\<close>.
\<close>

record ('d, 's) Resource =
  resource_contents :: 'd
  resource_specification :: 's

record 's Anchor =
  anchor_name :: json
  anchor_resource :: "(Schema, 's) Resource"

text \<open>
  A generator's run: what it yielded and, when an exception ended the run, which one.
\<close>

type_synonym 'a generated = "'a list \<times> error option"

record 's Specification =
  name :: string
  id_of :: "Schema \<Rightarrow> error + json"
  subresources_of :: "Schema \<Rightarrow> json generated"
  anchors_in :: "'s \<Rightarrow> Schema \<Rightarrow> error + 's Anchor list"

text \<open>
  Modelled from the spec: \<^verbatim>\<open>Specification.create_resource\<close> is defined in the
  referencing package. The spec says that an anchor's resource is the node in which the
  anchor keyword was found, constructed through the specification's own rules: the
  resource pairs the node with the specification.
\<close>

definition create_resource :: "'s \<Rightarrow> Schema \<Rightarrow> (Schema, 's) Resource" where
  "create_resource specification contents =
     \<lparr>resource_contents = contents, resource_specification = specification\<rparr>"

text \<open>
  Modelled from the spec: \<^verbatim>\<open>Resource.opaque\<close> is defined in the referencing package. It
  wraps contents that belong to no dialect; the catalog holds each specification so.
\<close>

definition opaque :: "'d \<Rightarrow> ('d, unit) Resource" where
  "opaque contents = \<lparr>resource_contents = contents, resource_specification = ()\<rparr>"

text \<open>
  Modelled from the spec: \<^verbatim>\<open>Registry\<close> is defined in the referencing package. The spec
  says that the catalog is an immutable mapping from the exact URI string to its entry
  and that lookup performs no normalization. \<open>Registry\<close> builds it from the pairs of the
  dictionary, \<open>Registry_get\<close> is \<^verbatim>\<open>Mapping.get\<close>: the entry, or \<open>None\<close> for Python's
  \<^verbatim>\<open>None\<close>.
\<close>

type_synonym 'r Registry = "URI \<rightharpoonup> 'r"

definition Registry :: "(URI \<times> 'r) list \<Rightarrow> 'r Registry" where
  "Registry resources = map_of resources"

definition Registry_get :: "'r Registry \<Rightarrow> URI \<Rightarrow> 'r option" where
  "Registry_get registry uri = registry uri"

section \<open>Operations of Python on JSON values\<close>

text \<open>\<^verbatim>\<open>s.startswith(p)\<close> on two strings.\<close>

definition startswith :: "string \<Rightarrow> string \<Rightarrow> bool" where
  "startswith s p = (take (length p) s = p)"

text \<open>
  \<^verbatim>\<open>v.startswith(p)\<close> on any value: only a string has the method.
\<close>

fun json_startswith :: "json \<Rightarrow> string \<Rightarrow> error + bool" where
  "json_startswith (JString s) p = Inr (startswith s p)"
| "json_startswith _ p = Inl AttributeError"

text \<open>
  \<^verbatim>\<open>contents.get(key)\<close> and \<^verbatim>\<open>contents.get(key, default)\<close> on a mapping: a key that is
  present gives its value, also when that value is \<^verbatim>\<open>None\<close>.
\<close>

definition get :: "ObjectSchema \<Rightarrow> string \<Rightarrow> json" where
  "get contents key = (case map_of contents key of None \<Rightarrow> JNull | Some v \<Rightarrow> v)"

definition get_default :: "ObjectSchema \<Rightarrow> string \<Rightarrow> json \<Rightarrow> json" where
  "get_default contents key d = (case map_of contents key of None \<Rightarrow> d | Some v \<Rightarrow> v)"

text \<open>\<^verbatim>\<open>key in contents\<close> on a mapping.\<close>

definition contains :: "ObjectSchema \<Rightarrow> string \<Rightarrow> bool" where
  "contains contents key = (map_of contents key \<noteq> None)"

text \<open>
  \<^verbatim>\<open>yield from v\<close> iterates \<open>v\<close>: a list gives its elements, a mapping its keys, a string
  its characters as strings of length one; the other kinds are not iterable.
\<close>

fun iterate :: "json \<Rightarrow> error + json list" where
  "iterate (JArray xs) = Inr xs"
| "iterate (JObject kvs) = Inr (map (\<lambda>kv. JString (fst kv)) kvs)"
| "iterate (JString s) = Inr (map (\<lambda>c. JString [c]) s)"
| "iterate _ = Inl TypeError"

text \<open>\<^verbatim>\<open>v.values()\<close>: only a mapping has the method.\<close>

fun values_of :: "json \<Rightarrow> error + json list" where
  "values_of (JObject kvs) = Inr (map snd kvs)"
| "values_of _ = Inl AttributeError"

subsection \<open>Generators\<close>

definition yield :: "'a \<Rightarrow> 'a generated" where
  "yield x = ([x], None)"

definition skip :: "'a generated" where
  "skip = ([], None)"

text \<open>\<^verbatim>\<open>yield from\<close> an iteration that may have failed to start.\<close>

definition yield_from :: "error + 'a list \<Rightarrow> 'a generated" where
  "yield_from r = (case r of Inl e \<Rightarrow> ([], Some e) | Inr xs \<Rightarrow> (xs, None))"

text \<open>
  One statement after another: the second runs only when the first ended without an
  exception; what the first yielded stays yielded.
\<close>

definition then_do :: "'a generated \<Rightarrow> 'a generated \<Rightarrow> 'a generated" where
  "then_do g h = (case snd g of Some e \<Rightarrow> g | None \<Rightarrow> (fst g @ fst h, snd h))"

text \<open>\<^verbatim>\<open>for each in keys: body\<close>.\<close>

fun for_each :: "'k list \<Rightarrow> ('k \<Rightarrow> 'a generated) \<Rightarrow> 'a generated" where
  "for_each [] body = skip"
| "for_each (each # rest) body = then_do (body each) (for_each rest body)"

section \<open>Identifier extraction\<close>

fun dollar_id :: "Schema \<Rightarrow> error + json" where
  "dollar_id (SBool b) = Inr JNull"
| "dollar_id (SObject contents) = Inr (get contents ''$id'')"

fun legacy_dollar_id :: "Schema \<Rightarrow> error + json" where
  "legacy_dollar_id (SBool b) = Inr JNull"
| "legacy_dollar_id (SObject contents) =
     (if contains contents ''$ref'' then Inr JNull
      else let id' = get contents ''$id'' in
        if id' = JNull then Inr JNull
        else case json_startswith id' ''#'' of
          Inl e \<Rightarrow> Inl e
        | Inr hash \<Rightarrow> if \<not> hash then Inr id' else Inr JNull)"

text \<open>
  \<^verbatim>\<open>_legacy_id\<close> has no test for a boolean: \<^verbatim>\<open>"$ref" in contents\<close> on a boolean raises
  \<^verbatim>\<open>TypeError\<close>.
\<close>

fun legacy_id :: "Schema \<Rightarrow> error + json" where
  "legacy_id (SBool b) = Inl TypeError"
| "legacy_id (SObject contents) =
     (if contains contents ''$ref'' then Inr JNull
      else let id' = get contents ''id'' in
        if id' = JNull then Inr JNull
        else case json_startswith id' ''#'' of
          Inl e \<Rightarrow> Inl e
        | Inr hash \<Rightarrow> if \<not> hash then Inr id' else Inr JNull)"

section \<open>Anchor enumeration\<close>

fun anchor_2019 :: "'s \<Rightarrow> Schema \<Rightarrow> error + 's Anchor list" where
  "anchor_2019 specification (SBool b) = Inr []"
| "anchor_2019 specification (SObject contents) =
     (let anchor = get contents ''$anchor'' in
      if anchor = JNull then Inr []
      else Inr [\<lparr>anchor_name = anchor,
                 anchor_resource = create_resource specification (SObject contents)\<rparr>])"

text \<open>\<^verbatim>\<open>id[1:]\<close> is reached only when \<^verbatim>\<open>id.startswith("#")\<close> held, so \<^verbatim>\<open>id\<close> is a string.\<close>

fun slice_from_1 :: "json \<Rightarrow> json" where
  "slice_from_1 (JString s) = JString (drop 1 s)"
| "slice_from_1 v = v"

fun legacy_anchor_in_dollar_id :: "'s \<Rightarrow> Schema \<Rightarrow> error + 's Anchor list" where
  "legacy_anchor_in_dollar_id specification (SBool b) = Inr []"
| "legacy_anchor_in_dollar_id specification (SObject contents) =
     (let id' = get_default contents ''$id'' (JString '''') in
      case json_startswith id' ''#'' of
        Inl e \<Rightarrow> Inl e
      | Inr hash \<Rightarrow>
          if \<not> hash then Inr []
          else Inr [\<lparr>anchor_name = slice_from_1 id',
                     anchor_resource = create_resource specification (SObject contents)\<rparr>])"

text \<open>
  \<^verbatim>\<open>_legacy_anchor_in_id\<close> has no test for a boolean: \<^verbatim>\<open>contents.get\<close> on a boolean
  raises \<^verbatim>\<open>AttributeError\<close>.
\<close>

fun legacy_anchor_in_id :: "'s \<Rightarrow> Schema \<Rightarrow> error + 's Anchor list" where
  "legacy_anchor_in_id specification (SBool b) = Inl AttributeError"
| "legacy_anchor_in_id specification (SObject contents) =
     (let id' = get_default contents ''id'' (JString '''') in
      case json_startswith id' ''#'' of
        Inl e \<Rightarrow> Inl e
      | Inr hash \<Rightarrow>
          if \<not> hash then Inr []
          else Inr [\<lparr>anchor_name = slice_from_1 id',
                     anchor_resource = create_resource specification (SObject contents)\<rparr>])"

section \<open>Sub-schema enumeration\<close>

text \<open>
  \<^verbatim>\<open>_subresources_of\<close> returns the generator function \<^verbatim>\<open>subresources_of\<close>; here it is
  the function of the three keyword sets and the node. A keyword set arrives as the list
  of its elements in the order in which Python iterates the set. The three loops run in
  the order of the source: \<^verbatim>\<open>in_value\<close>, \<^verbatim>\<open>in_subarray\<close>, \<^verbatim>\<open>in_subvalues\<close>.
\<close>

fun subresources_of_factory ::
  "string list \<Rightarrow> string list \<Rightarrow> string list \<Rightarrow> Schema \<Rightarrow> json generated" where
  "subresources_of_factory in_value in_subvalues in_subarray (SBool b) = skip"
| "subresources_of_factory in_value in_subvalues in_subarray (SObject contents) =
     then_do
       (for_each in_value (\<lambda>each.
          case map_of contents each of None \<Rightarrow> skip | Some v \<Rightarrow> yield v))
       (then_do
         (for_each in_subarray (\<lambda>each.
            case map_of contents each of None \<Rightarrow> skip | Some v \<Rightarrow> yield_from (iterate v)))
         (for_each in_subvalues (\<lambda>each.
            case map_of contents each of None \<Rightarrow> skip | Some v \<Rightarrow> yield_from (values_of v))))"

section \<open>The six dialects\<close>

text \<open>
  The keyword sets are Python set literals, and the order in which Python iterates a
  set of strings is not the order of the literal: it changes from one process to the
  next. \<open>set_order\<close> is that order, a function from the elements as written to the
  elements as iterated; \<open>set_iteration\<close> says what every such order satisfies.
\<close>

type_synonym set_order = "string list \<Rightarrow> string list"

definition set_iteration :: "set_order \<Rightarrow> bool" where
  "set_iteration ord = (\<forall>xs. distinct xs \<longrightarrow> set (ord xs) = set xs \<and> distinct (ord xs))"

definition DRAFT202012 :: "set_order \<Rightarrow> 's Specification" where
  "DRAFT202012 ord =
     \<lparr>name = ''draft2020-12'',
      id_of = dollar_id,
      subresources_of = (\<lambda>contents. ([], None)),
      anchors_in = (\<lambda>specification contents. Inr [])\<rparr>"

definition DRAFT201909 :: "set_order \<Rightarrow> 's Specification" where
  "DRAFT201909 ord =
     \<lparr>name = ''draft2019-09'',
      id_of = dollar_id,
      subresources_of = subresources_of_factory
        (ord [''additionalProperties'', ''if'', ''then'', ''else'', ''not''])
        (ord [''$defs'', ''properties''])
        (ord [''allOf'', ''anyOf'', ''oneOf'']),
      anchors_in = anchor_2019\<rparr>"

definition DRAFT7 :: "set_order \<Rightarrow> 's Specification" where
  "DRAFT7 ord =
     \<lparr>name = ''draft-07'',
      id_of = legacy_dollar_id,
      subresources_of = subresources_of_factory
        (ord [''additionalProperties'', ''if'', ''then'', ''else'', ''not''])
        (ord [''definitions'', ''properties''])
        (ord [''allOf'', ''anyOf'', ''oneOf'']),
      anchors_in = legacy_anchor_in_dollar_id\<rparr>"

definition DRAFT6 :: "set_order \<Rightarrow> 's Specification" where
  "DRAFT6 ord =
     \<lparr>name = ''draft-06'',
      id_of = legacy_dollar_id,
      subresources_of = subresources_of_factory
        (ord [''additionalProperties'', ''not''])
        (ord [''definitions'', ''properties''])
        (ord [''allOf'', ''anyOf'', ''oneOf'']),
      anchors_in = legacy_anchor_in_dollar_id\<rparr>"

definition DRAFT4 :: "set_order \<Rightarrow> 's Specification" where
  "DRAFT4 ord =
     \<lparr>name = ''draft-04'',
      id_of = legacy_id,
      subresources_of = subresources_of_factory
        (ord [''additionalProperties'', ''not''])
        (ord [''definitions'', ''properties''])
        (ord [''allOf'', ''anyOf'', ''oneOf'']),
      anchors_in = legacy_anchor_in_id\<rparr>"

definition DRAFT3 :: "set_order \<Rightarrow> 's Specification" where
  "DRAFT3 ord =
     \<lparr>name = ''draft-03'',
      id_of = legacy_id,
      subresources_of = subresources_of_factory
        (ord [''additionalProperties''])
        (ord [''definitions'', ''properties''])
        (ord [''extends'']),
      anchors_in = legacy_anchor_in_id\<rparr>"

section \<open>The catalog and its lookup\<close>

definition SPECIFICATIONS :: "set_order \<Rightarrow> ('s Specification, unit) Resource Registry" where
  "SPECIFICATIONS ord =
     Registry (map (\<lambda>(dialect_id, specification). (dialect_id, opaque specification))
       [(''https://json-schema.org/draft/2020-12/schema'', DRAFT202012 ord),
        (''https://json-schema.org/draft/2019-09/schema'', DRAFT201909 ord),
        (''http://json-schema.org/draft-07/schema#'', DRAFT7 ord),
        (''http://json-schema.org/draft-06/schema#'', DRAFT6 ord),
        (''http://json-schema.org/draft-04/schema#'', DRAFT4 ord),
        (''http://json-schema.org/draft-03/schema#'', DRAFT3 ord)])"

text \<open>
  The parameter \<^verbatim>\<open>default\<close> holds \<^verbatim>\<open>None\<close> (here \<open>None\<close>) or a specification.
\<close>

definition specification_with ::
  "set_order \<Rightarrow> URI \<Rightarrow> 's Specification option \<Rightarrow> error + 's Specification" where
  "specification_with ord dialect_id default_value =
     (case Registry_get (SPECIFICATIONS ord) dialect_id of
        Some resource \<Rightarrow> Inr (resource_contents resource)
      | None \<Rightarrow>
          (case default_value of
             None \<Rightarrow> Inl (UnknownDialect dialect_id)
           | Some d \<Rightarrow> Inr d))"

text \<open>
  A call of \<^verbatim>\<open>specification_with\<close>: the caller leaves \<^verbatim>\<open>default\<close> out, and the parameter
  takes the value of its declaration, \<^verbatim>\<open>None\<close>; or the caller passes a value, which may
  be \<^verbatim>\<open>None\<close> too.
\<close>

datatype 'a argument = Omitted | Passed 'a

definition call_specification_with ::
  "set_order \<Rightarrow> URI \<Rightarrow> 's Specification option argument \<Rightarrow> error + 's Specification" where
  "call_specification_with ord dialect_id arg =
     specification_with ord dialect_id (case arg of Omitted \<Rightarrow> None | Passed v \<Rightarrow> v)"

section \<open>What the specification says of the enumeration\<close>

text \<open>
  The spec states the result of sub-schema enumeration keyword by keyword: a keyword of
  \<^verbatim>\<open>in_value\<close> contributes its value when the node has it, a keyword of \<^verbatim>\<open>in_subarray\<close>
  the elements of its array in the array's order, a keyword of \<^verbatim>\<open>in_subvalues\<close> the
  values of its mapping in the mapping's order; a keyword that the node lacks
  contributes nothing. These three functions follow those words, for comparison with
  the loops of \<open>subresources_of_factory\<close>.
\<close>

definition schemas_in_value :: "string list \<Rightarrow> ObjectSchema \<Rightarrow> json list" where
  "schemas_in_value keywords contents =
     concat (map (\<lambda>k. case map_of contents k of None \<Rightarrow> [] | Some v \<Rightarrow> [v]) keywords)"

definition schemas_in_subarray :: "string list \<Rightarrow> ObjectSchema \<Rightarrow> json list" where
  "schemas_in_subarray keywords contents =
     concat (map (\<lambda>k. case map_of contents k of Some (JArray xs) \<Rightarrow> xs | _ \<Rightarrow> []) keywords)"

definition schemas_in_subvalues :: "string list \<Rightarrow> ObjectSchema \<Rightarrow> json list" where
  "schemas_in_subvalues keywords contents =
     concat (map (\<lambda>k. case map_of contents k of Some (JObject kvs) \<Rightarrow> map snd kvs | _ \<Rightarrow> [])
       keywords)"

text \<open>
  The kinds of value that the keywords are meant to hold, and the nodes in which every
  keyword read by some dialect holds a value of its kind, when the node has it.
\<close>

fun is_string :: "json \<Rightarrow> bool" where
  "is_string (JString s) = True"
| "is_string _ = False"

fun is_array :: "json \<Rightarrow> bool" where
  "is_array (JArray xs) = True"
| "is_array _ = False"

fun is_mapping :: "json \<Rightarrow> bool" where
  "is_mapping (JObject kvs) = True"
| "is_mapping _ = False"

definition absent_or :: "(json \<Rightarrow> bool) \<Rightarrow> ObjectSchema \<Rightarrow> string \<Rightarrow> bool" where
  "absent_or kind contents key = (case map_of contents key of None \<Rightarrow> True | Some v \<Rightarrow> kind v)"

definition well_typed_keywords :: "ObjectSchema \<Rightarrow> bool" where
  "well_typed_keywords contents =
     (list_all (absent_or is_string contents) [''$id'', ''id''] \<and>
      list_all (absent_or is_array contents) [''allOf'', ''anyOf'', ''oneOf'', ''extends''] \<and>
      list_all (absent_or is_mapping contents) [''$defs'', ''definitions'', ''properties''])"

section \<open>Lookup in the catalog\<close>

lemma Registry_get_SPECIFICATIONS:
  "Registry_get (SPECIFICATIONS ord) uri =
     (if uri = ''https://json-schema.org/draft/2020-12/schema'' then Some (opaque (DRAFT202012 ord))
      else if uri = ''https://json-schema.org/draft/2019-09/schema'' then Some (opaque (DRAFT201909 ord))
      else if uri = ''http://json-schema.org/draft-07/schema#'' then Some (opaque (DRAFT7 ord))
      else if uri = ''http://json-schema.org/draft-06/schema#'' then Some (opaque (DRAFT6 ord))
      else if uri = ''http://json-schema.org/draft-04/schema#'' then Some (opaque (DRAFT4 ord))
      else if uri = ''http://json-schema.org/draft-03/schema#'' then Some (opaque (DRAFT3 ord))
      else None)"
  unfolding Registry_get_def SPECIFICATIONS_def Registry_def
  by (simp del: list.inject char.inject)

lemma specification_with_lookup:
  "specification_with ord uri d =
     (if uri = ''https://json-schema.org/draft/2020-12/schema'' then Inr (DRAFT202012 ord)
      else if uri = ''https://json-schema.org/draft/2019-09/schema'' then Inr (DRAFT201909 ord)
      else if uri = ''http://json-schema.org/draft-07/schema#'' then Inr (DRAFT7 ord)
      else if uri = ''http://json-schema.org/draft-06/schema#'' then Inr (DRAFT6 ord)
      else if uri = ''http://json-schema.org/draft-04/schema#'' then Inr (DRAFT4 ord)
      else if uri = ''http://json-schema.org/draft-03/schema#'' then Inr (DRAFT3 ord)
      else case d of None \<Rightarrow> Inl (UnknownDialect uri) | Some s \<Rightarrow> Inr s)"
  unfolding specification_with_def Registry_get_SPECIFICATIONS
  by (simp add: opaque_def del: list.inject char.inject)

text \<open>
  C1. For a URI that is none of the six keys of the catalog, \<^verbatim>\<open>specification_with\<close>
  called with no default raises \<^verbatim>\<open>UnknownDialect\<close> carrying that URI, and called with a
  specification as default returns that specification.
\<close>

theorem specification_with_unknown:
  "dialect_id \<notin> {''https://json-schema.org/draft/2020-12/schema'',
                   ''https://json-schema.org/draft/2019-09/schema'',
                   ''http://json-schema.org/draft-07/schema#'',
                   ''http://json-schema.org/draft-06/schema#'',
                   ''http://json-schema.org/draft-04/schema#'',
                   ''http://json-schema.org/draft-03/schema#''} \<Longrightarrow>
   call_specification_with ord dialect_id Omitted = Inl (UnknownDialect dialect_id) \<and>
   call_specification_with ord dialect_id (Passed (Some d)) = Inr d"
  by (simp add: call_specification_with_def specification_with_lookup del: list.inject char.inject)

theorem specification_with_unknown_witness:
  "call_specification_with (\<lambda>xs. xs) ''unknown-uri'' Omitted = Inl (UnknownDialect ''unknown-uri'') \<and>
   call_specification_with (\<lambda>xs. xs) ''unknown-uri''
       (Passed (Some (DRAFT7 (\<lambda>xs. xs) :: unit Specification)))
     = Inr (DRAFT7 (\<lambda>xs. xs))"
  using specification_with_unknown
    [of "''unknown-uri''" "\<lambda>xs. xs" "DRAFT7 (\<lambda>xs. xs) :: unit Specification"]
  by simp

text \<open>
  C6. Each of the six URIs of the catalog gives its specification, whatever the default:
  the lookup does not raise, and the specification carries the name of its dialect. The
  catalog has no other key: a URI that differs from the six in its scheme or in its last
  characters is not found.
\<close>

theorem specification_with_catalog:
  "call_specification_with ord ''https://json-schema.org/draft/2020-12/schema'' arg
     = Inr (DRAFT202012 ord) \<and>
   name (DRAFT202012 ord) = ''draft2020-12'' \<and>
   call_specification_with ord ''https://json-schema.org/draft/2019-09/schema'' arg
     = Inr (DRAFT201909 ord) \<and>
   name (DRAFT201909 ord) = ''draft2019-09'' \<and>
   call_specification_with ord ''http://json-schema.org/draft-07/schema#'' arg = Inr (DRAFT7 ord) \<and>
   name (DRAFT7 ord) = ''draft-07'' \<and>
   call_specification_with ord ''http://json-schema.org/draft-06/schema#'' arg = Inr (DRAFT6 ord) \<and>
   name (DRAFT6 ord) = ''draft-06'' \<and>
   call_specification_with ord ''http://json-schema.org/draft-04/schema#'' arg = Inr (DRAFT4 ord) \<and>
   name (DRAFT4 ord) = ''draft-04'' \<and>
   call_specification_with ord ''http://json-schema.org/draft-03/schema#'' arg = Inr (DRAFT3 ord) \<and>
   name (DRAFT3 ord) = ''draft-03'' \<and>
   ((Registry_get (SPECIFICATIONS ord) uri = None) =
      (uri \<notin> {''https://json-schema.org/draft/2020-12/schema'',
               ''https://json-schema.org/draft/2019-09/schema'',
               ''http://json-schema.org/draft-07/schema#'',
               ''http://json-schema.org/draft-06/schema#'',
               ''http://json-schema.org/draft-04/schema#'',
               ''http://json-schema.org/draft-03/schema#''})) \<and>
   call_specification_with ord ''https://json-schema.org/draft-07/schema#'' Omitted
     = Inl (UnknownDialect ''https://json-schema.org/draft-07/schema#'') \<and>
   call_specification_with ord ''http://json-schema.org/draft-07/schema'' Omitted
     = Inl (UnknownDialect ''http://json-schema.org/draft-07/schema'') \<and>
   call_specification_with ord ''http://json-schema.org/draft-07/schema#/'' Omitted
     = Inl (UnknownDialect ''http://json-schema.org/draft-07/schema#/'')"
  by (simp add: call_specification_with_def specification_with_lookup Registry_get_SPECIFICATIONS
        DRAFT202012_def DRAFT201909_def DRAFT7_def DRAFT6_def DRAFT4_def DRAFT3_def)

text \<open>
  C10. Passing \<^verbatim>\<open>None\<close> as the default is the same call as passing no default; for a
  URI that is none of the six keys it raises \<^verbatim>\<open>UnknownDialect\<close> with that URI.
\<close>

theorem specification_with_None:
  "call_specification_with ord dialect_id (Passed None)
     = call_specification_with ord dialect_id Omitted \<and>
   (dialect_id \<notin> {''https://json-schema.org/draft/2020-12/schema'',
                   ''https://json-schema.org/draft/2019-09/schema'',
                   ''http://json-schema.org/draft-07/schema#'',
                   ''http://json-schema.org/draft-06/schema#'',
                   ''http://json-schema.org/draft-04/schema#'',
                   ''http://json-schema.org/draft-03/schema#''} \<longrightarrow>
    call_specification_with ord dialect_id (Passed None) = Inl (UnknownDialect dialect_id))"
  by (simp add: call_specification_with_def specification_with_lookup del: list.inject char.inject)

theorem specification_with_None_witness:
  "call_specification_with (\<lambda>xs. xs) ''unknown-uri'' (Passed (None :: unit Specification option))
     = call_specification_with (\<lambda>xs. xs) ''unknown-uri'' Omitted \<and>
   call_specification_with (\<lambda>xs. xs) ''unknown-uri'' (Passed (None :: unit Specification option))
     = Inl (UnknownDialect ''unknown-uri'')"
  using specification_with_None [where ?'a = unit, of "\<lambda>xs. xs" "''unknown-uri''"]
  by simp

section \<open>The 2020-12 and 2019-09 dialects\<close>

text \<open>
  C8. For the 2020-12 specification, sub-schema enumeration yields nothing and anchor
  enumeration returns the empty list, on every schema node.
\<close>

theorem draft202012_empty:
  "subresources_of (DRAFT202012 ord) contents = ([], None) \<and>
   anchors_in (DRAFT202012 ord) specification contents = Inr []"
  by (simp add: DRAFT202012_def)

text \<open>
  C9. For the 2020-12 and 2019-09 specifications, identifier extraction returns nothing
  on a boolean node and on an object node without \<^verbatim>\<open>$id\<close>, and returns the value of
  \<^verbatim>\<open>$id\<close> on every object node that has it, whatever else the node holds and
  whatever the value starts with.
\<close>

theorem modern_id_of:
  "\<forall>D \<in> {DRAFT202012 ord, DRAFT201909 ord}.
     id_of D (SBool b) = Inr JNull \<and>
     (map_of contents ''$id'' = None \<longrightarrow> id_of D (SObject contents) = Inr JNull) \<and>
     (\<forall>v. map_of contents ''$id'' = Some v \<longrightarrow> id_of D (SObject contents) = Inr v)"
  by (simp add: DRAFT202012_def DRAFT201909_def get_def)

theorem modern_id_of_witness:
  "id_of (DRAFT201909 (\<lambda>xs. xs) :: unit Specification)
       (SObject [(''$id'', JString ''http://x/a'')])
     = Inr (JString ''http://x/a'') \<and>
   id_of (DRAFT202012 (\<lambda>xs. xs) :: unit Specification)
       (SObject [(''$ref'', JString ''#/foo''), (''$id'', JString ''#frag'')])
     = Inr (JString ''#frag'') \<and>
   id_of (DRAFT201909 (\<lambda>xs. xs) :: unit Specification)
       (SObject [(''$ref'', JString ''#/foo'')]) = Inr JNull \<and>
   id_of (DRAFT202012 (\<lambda>xs. xs) :: unit Specification) (SBool True) = Inr JNull"
  using
    modern_id_of [where ?'a = unit, of "\<lambda>xs. xs" True "[(''$id'', JString ''http://x/a'')]"]
    modern_id_of [where ?'a = unit, of "\<lambda>xs. xs" True
      "[(''$ref'', JString ''#/foo''), (''$id'', JString ''#frag'')]"]
    modern_id_of [where ?'a = unit, of "\<lambda>xs. xs" True "[(''$ref'', JString ''#/foo'')]"]
  by simp

text \<open>
  C2. For the 2019-09 specification, anchor enumeration on an object node without
  \<^verbatim>\<open>$anchor\<close> returns the empty list. When \<^verbatim>\<open>$anchor\<close> holds a string, it returns
  exactly one anchor, named by that string, whose resource is the node itself. The
  source tests the value against \<^verbatim>\<open>None\<close> only, so the empty string gives an anchor
  too, with the empty name: the sentence that the empty string yields no anchor does
  not hold.
\<close>

theorem anchor_2019_anchors_in:
  "(map_of contents ''$anchor'' = None \<longrightarrow>
      anchors_in (DRAFT201909 ord) specification (SObject contents) = Inr []) \<and>
   (\<forall>s. map_of contents ''$anchor'' = Some (JString s) \<longrightarrow>
      anchors_in (DRAFT201909 ord) specification (SObject contents) =
        Inr [\<lparr>anchor_name = JString s,
              anchor_resource = \<lparr>resource_contents = SObject contents,
                                 resource_specification = specification\<rparr>\<rparr>])"
  by (simp add: DRAFT201909_def get_def create_resource_def Let_def)

theorem anchor_2019_anchors_in_witness:
  "anchors_in (DRAFT201909 (\<lambda>xs. xs)) () (SObject [(''$anchor'', JString ''foo'')])
     = Inr [\<lparr>anchor_name = JString ''foo'',
             anchor_resource = \<lparr>resource_contents = SObject [(''$anchor'', JString ''foo'')],
                                resource_specification = ()\<rparr>\<rparr>] \<and>
   anchors_in (DRAFT201909 (\<lambda>xs. xs)) () (SObject [(''$anchor'', JString '''')])
     = Inr [\<lparr>anchor_name = JString '''',
             anchor_resource = \<lparr>resource_contents = SObject [(''$anchor'', JString '''')],
                                resource_specification = ()\<rparr>\<rparr>] \<and>
   anchors_in (DRAFT201909 (\<lambda>xs. xs)) () (SObject [(''$id'', JString ''foo'')]) = Inr []"
  using
    anchor_2019_anchors_in [of "[(''$anchor'', JString ''foo'')]" "\<lambda>xs. xs" "()"]
    anchor_2019_anchors_in [of "[(''$anchor'', JString '''')]" "\<lambda>xs. xs" "()"]
    anchor_2019_anchors_in [of "[(''$id'', JString ''foo'')]" "\<lambda>xs. xs" "()"]
  by simp

theorem anchor_2019_empty_name_counterexample:
  "anchors_in (DRAFT201909 (\<lambda>xs. xs)) () (SObject [(''$anchor'', JString '''')])
     = Inr [\<lparr>anchor_name = JString '''',
             anchor_resource = \<lparr>resource_contents = SObject [(''$anchor'', JString '''')],
                                resource_specification = ()\<rparr>\<rparr>] \<and>
   anchors_in (DRAFT201909 (\<lambda>xs. xs)) () (SObject [(''$anchor'', JString '''')]) \<noteq> Inr []"
  by (simp add: DRAFT201909_def get_def create_resource_def Let_def)

section \<open>The legacy dialects\<close>

lemma startswith_hash: "startswith s ''#'' = (\<exists>rest. s = CHR ''#'' # rest)"
  by (cases s) (auto simp: startswith_def)

lemma contains_keys: "contains contents key = (key \<in> fst ` set contents)"
  by (simp add: contains_def map_of_eq_None_iff)

lemma legacy_dollar_id_object:
  "legacy_dollar_id (SObject contents) =
     (if ''$ref'' \<in> fst ` set contents then Inr JNull
      else case map_of contents ''$id'' of
        None \<Rightarrow> Inr JNull
      | Some JNull \<Rightarrow> Inr JNull
      | Some (JString s) \<Rightarrow> if \<exists>rest. s = CHR ''#'' # rest then Inr JNull else Inr (JString s)
      | Some _ \<Rightarrow> Inl AttributeError)"
  by (simp add: contains_keys get_def startswith_hash split: option.split json.split)

lemma legacy_id_object:
  "legacy_id (SObject contents) =
     (if ''$ref'' \<in> fst ` set contents then Inr JNull
      else case map_of contents ''id'' of
        None \<Rightarrow> Inr JNull
      | Some JNull \<Rightarrow> Inr JNull
      | Some (JString s) \<Rightarrow> if \<exists>rest. s = CHR ''#'' # rest then Inr JNull else Inr (JString s)
      | Some _ \<Rightarrow> Inl AttributeError)"
  by (simp add: contains_keys get_def startswith_hash split: option.split json.split)

text \<open>
  C4. For draft-07 and draft-06 with the keyword \<^verbatim>\<open>$id\<close>, and for draft-04 and
  draft-03 with the keyword \<^verbatim>\<open>id\<close>, identifier extraction on an object node returns
  nothing when the keyword is absent and when the node holds \<^verbatim>\<open>$ref\<close>; when the
  keyword holds a string, it returns that string exactly when the node holds no
  \<^verbatim>\<open>$ref\<close> and the string does not start with \<^verbatim>\<open>#\<close>, and nothing otherwise.
  This is a statement about string values: a node without \<^verbatim>\<open>$ref\<close> whose keyword holds
  a number or an array makes \<^verbatim>\<open>id.startswith\<close> raise \<^verbatim>\<open>AttributeError\<close>, so the value is not
  returned on every object node.
\<close>

theorem legacy_id_of:
  "\<forall>(D, k) \<in> {(DRAFT7 ord, ''$id''), (DRAFT6 ord, ''$id''), (DRAFT4 ord, ''id''), (DRAFT3 ord, ''id'')}.
     (map_of contents k = None \<longrightarrow> id_of D (SObject contents) = Inr JNull) \<and>
     (''$ref'' \<in> fst ` set contents \<longrightarrow> id_of D (SObject contents) = Inr JNull) \<and>
     (\<forall>s. map_of contents k = Some (JString s) \<longrightarrow>
        id_of D (SObject contents) =
          (if ''$ref'' \<notin> fst ` set contents \<and> \<not> (\<exists>rest. s = CHR ''#'' # rest)
           then Inr (JString s) else Inr JNull))"
  by (simp add: DRAFT7_def DRAFT6_def DRAFT4_def DRAFT3_def legacy_dollar_id_object legacy_id_object
        del: legacy_dollar_id.simps legacy_id.simps)

theorem legacy_id_of_witness:
  "id_of (DRAFT7 (\<lambda>xs. xs) :: unit Specification)
       (SObject [(''$id'', JString ''http://x/a''), (''$ref'', JString ''#/foo'')]) = Inr JNull \<and>
   id_of (DRAFT6 (\<lambda>xs. xs) :: unit Specification) (SObject [(''$id'', JString ''#frag'')]) = Inr JNull \<and>
   id_of (DRAFT4 (\<lambda>xs. xs) :: unit Specification) (SObject [(''id'', JString ''http://x/a'')])
     = Inr (JString ''http://x/a'') \<and>
   id_of (DRAFT3 (\<lambda>xs. xs) :: unit Specification) (SObject [(''$id'', JString ''http://x/a'')])
     = Inr JNull"
  using
    legacy_id_of [where ?'a = unit, of "\<lambda>xs. xs"
      "[(''$id'', JString ''http://x/a''), (''$ref'', JString ''#/foo'')]"]
    legacy_id_of [where ?'a = unit, of "\<lambda>xs. xs" "[(''$id'', JString ''#frag'')]"]
    legacy_id_of [where ?'a = unit, of "\<lambda>xs. xs" "[(''id'', JString ''http://x/a'')]"]
    legacy_id_of [where ?'a = unit, of "\<lambda>xs. xs" "[(''$id'', JString ''http://x/a'')]"]
  by simp

theorem legacy_id_of_number_counterexample:
  "''$ref'' \<notin> fst ` set [(''$id'', JNum 5)] \<and>
   id_of (DRAFT7 (\<lambda>xs. xs) :: unit Specification) (SObject [(''$id'', JNum 5)])
     = Inl AttributeError \<and>
   id_of (DRAFT7 (\<lambda>xs. xs) :: unit Specification) (SObject [(''$id'', JNum 5)])
     \<noteq> Inr (JNum 5) \<and>
   id_of (DRAFT7 (\<lambda>xs. xs) :: unit Specification) (SObject [(''$id'', JNum 5)])
     \<noteq> Inr JNull \<and>
   id_of (DRAFT4 (\<lambda>xs. xs) :: unit Specification) (SObject [(''id'', JArray [])])
     = Inl AttributeError"
  by (simp add: DRAFT7_def DRAFT4_def legacy_dollar_id_object legacy_id_object
        del: legacy_dollar_id.simps legacy_id.simps)

lemma legacy_anchor_in_dollar_id_object:
  "legacy_anchor_in_dollar_id specification (SObject contents) =
     (case map_of contents ''$id'' of
        None \<Rightarrow> Inr []
      | Some (JString s) \<Rightarrow>
          (case s of
             [] \<Rightarrow> Inr []
           | c # rest \<Rightarrow>
               if c = CHR ''#''
               then Inr [\<lparr>anchor_name = JString rest,
                          anchor_resource = \<lparr>resource_contents = SObject contents,
                                             resource_specification = specification\<rparr>\<rparr>]
               else Inr [])
      | Some _ \<Rightarrow> Inl AttributeError)"
  by (simp add: get_default_def startswith_def create_resource_def split: option.split json.split list.split)

lemma legacy_anchor_in_id_object:
  "legacy_anchor_in_id specification (SObject contents) =
     (case map_of contents ''id'' of
        None \<Rightarrow> Inr []
      | Some (JString s) \<Rightarrow>
          (case s of
             [] \<Rightarrow> Inr []
           | c # rest \<Rightarrow>
               if c = CHR ''#''
               then Inr [\<lparr>anchor_name = JString rest,
                          anchor_resource = \<lparr>resource_contents = SObject contents,
                                             resource_specification = specification\<rparr>\<rparr>]
               else Inr [])
      | Some _ \<Rightarrow> Inl AttributeError)"
  by (simp add: get_default_def startswith_def create_resource_def split: option.split json.split list.split)

text \<open>
  C7. For draft-07 and draft-06 with the keyword \<^verbatim>\<open>$id\<close>, and for draft-04 and
  draft-03 with the keyword \<^verbatim>\<open>id\<close>, anchor enumeration on an object node returns the
  empty list when the keyword is absent and when it holds a string that does not start
  with \<^verbatim>\<open>#\<close>. When it holds a string that starts with \<^verbatim>\<open>#\<close>, it returns exactly one
  anchor, named by the rest of the string, whose resource is the node itself; for the
  string \<^verbatim>\<open>#\<close> the name is the empty string. This is a statement about string values:
  when the keyword holds \<^verbatim>\<open>null\<close> or a number, \<^verbatim>\<open>id.startswith\<close> raises
  \<^verbatim>\<open>AttributeError\<close> and the result is not the empty list.
\<close>

theorem legacy_anchors_in:
  "\<forall>(D, k) \<in> {(DRAFT7 ord, ''$id''), (DRAFT6 ord, ''$id''), (DRAFT4 ord, ''id''), (DRAFT3 ord, ''id'')}.
     (map_of contents k = None \<longrightarrow> anchors_in D specification (SObject contents) = Inr []) \<and>
     (\<forall>rest. map_of contents k = Some (JString (CHR ''#'' # rest)) \<longrightarrow>
        anchors_in D specification (SObject contents) =
          Inr [\<lparr>anchor_name = JString rest,
                anchor_resource = \<lparr>resource_contents = SObject contents,
                                   resource_specification = specification\<rparr>\<rparr>]) \<and>
     (\<forall>s. map_of contents k = Some (JString s) \<and> \<not> (\<exists>rest. s = CHR ''#'' # rest) \<longrightarrow>
        anchors_in D specification (SObject contents) = Inr [])"
  by (auto simp add: DRAFT7_def DRAFT6_def DRAFT4_def DRAFT3_def
        legacy_anchor_in_dollar_id_object legacy_anchor_in_id_object
        simp del: legacy_anchor_in_dollar_id.simps legacy_anchor_in_id.simps split: list.split)

theorem legacy_anchors_in_witness:
  "anchors_in (DRAFT4 (\<lambda>xs. xs)) () (SObject [(''id'', JString ''#bar'')])
     = Inr [\<lparr>anchor_name = JString ''bar'',
             anchor_resource = \<lparr>resource_contents = SObject [(''id'', JString ''#bar'')],
                                resource_specification = ()\<rparr>\<rparr>] \<and>
   anchors_in (DRAFT7 (\<lambda>xs. xs)) () (SObject [(''$id'', JString ''#'')])
     = Inr [\<lparr>anchor_name = JString '''',
             anchor_resource = \<lparr>resource_contents = SObject [(''$id'', JString ''#'')],
                                resource_specification = ()\<rparr>\<rparr>] \<and>
   anchors_in (DRAFT6 (\<lambda>xs. xs)) () (SObject [(''$id'', JString ''http://x/a'')]) = Inr [] \<and>
   anchors_in (DRAFT3 (\<lambda>xs. xs)) () (SObject [(''$id'', JString ''#bar'')]) = Inr []"
  using
    legacy_anchors_in [of "\<lambda>xs. xs" "[(''id'', JString ''#bar'')]" "()"]
    legacy_anchors_in [of "\<lambda>xs. xs" "[(''$id'', JString ''#'')]" "()"]
    legacy_anchors_in [of "\<lambda>xs. xs" "[(''$id'', JString ''http://x/a'')]" "()"]
    legacy_anchors_in [of "\<lambda>xs. xs" "[(''$id'', JString ''#bar'')]" "()"]
  by simp

theorem legacy_anchors_in_null_counterexample:
  "anchors_in (DRAFT7 (\<lambda>xs. xs)) () (SObject [(''$id'', JNull)]) = Inl AttributeError \<and>
   anchors_in (DRAFT7 (\<lambda>xs. xs)) () (SObject [(''$id'', JNull)]) \<noteq> Inr [] \<and>
   anchors_in (DRAFT4 (\<lambda>xs. xs)) () (SObject [(''id'', JNum 5)]) = Inl AttributeError \<and>
   anchors_in (DRAFT4 (\<lambda>xs. xs)) () (SObject [(''id'', JNum 5)]) \<noteq> Inr []"
  by (simp add: DRAFT7_def DRAFT4_def legacy_anchor_in_dollar_id_object legacy_anchor_in_id_object
        del: legacy_anchor_in_dollar_id.simps legacy_anchor_in_id.simps)

section \<open>Sub-schema enumeration of the dialects\<close>

lemma then_do_ok: "then_do (xs, None) h = (xs @ fst h, snd h)"
  by (simp add: then_do_def)

lemma for_each_ok:
  "\<forall>k \<in> set ks. snd (body k) = None \<Longrightarrow>
     for_each ks body = (concat (map (\<lambda>k. fst (body k)) ks), None)"
proof (induction ks)
  case Nil
  then show ?case by (simp add: skip_def)
next
  case (Cons k ks)
  then have "snd (body k) = None"
    by simp
  moreover from Cons have "for_each ks body = (concat (map (\<lambda>k. fst (body k)) ks), None)"
    by simp
  ultimately show ?case
    by (simp add: then_do_def)
qed

lemma in_value_loop:
  "for_each in_value (\<lambda>each. case map_of contents each of None \<Rightarrow> skip | Some v \<Rightarrow> yield v)
     = (schemas_in_value in_value contents, None)"
proof -
  have "for_each in_value (\<lambda>each. case map_of contents each of None \<Rightarrow> skip | Some v \<Rightarrow> yield v)
      = (concat (map (\<lambda>k. fst (case map_of contents k of None \<Rightarrow> skip | Some v \<Rightarrow> yield v)) in_value), None)"
    by (rule for_each_ok) (simp add: skip_def yield_def split: option.split)
  moreover have "(\<lambda>k. fst (case map_of contents k of None \<Rightarrow> skip | Some v \<Rightarrow> yield v))
      = (\<lambda>k. case map_of contents k of None \<Rightarrow> [] | Some v \<Rightarrow> [v])"
    by (auto simp: skip_def yield_def split: option.split)
  ultimately show ?thesis
    by (simp add: schemas_in_value_def)
qed

lemma in_subarray_loop:
  assumes "list_all (absent_or is_array contents) in_subarray"
  shows "for_each in_subarray
           (\<lambda>each. case map_of contents each of None \<Rightarrow> skip | Some v \<Rightarrow> yield_from (iterate v))
         = (schemas_in_subarray in_subarray contents, None)"
proof -
  let ?body = "\<lambda>each. case map_of contents each of None \<Rightarrow> skip | Some v \<Rightarrow> yield_from (iterate v)"
  have kinds: "\<forall>k \<in> set in_subarray. \<forall>v. map_of contents k = Some v \<longrightarrow> is_array v"
    using assms by (auto simp: list_all_iff absent_or_def)
  have body: "?body k = (case map_of contents k of Some (JArray xs) \<Rightarrow> xs | _ \<Rightarrow> [], None)"
    if "k \<in> set in_subarray" for k
  proof (cases "map_of contents k")
    case None
    then show ?thesis by (simp add: skip_def)
  next
    case (Some v)
    with kinds that have "is_array v" by simp
    then obtain xs where "v = JArray xs" by (cases v) simp_all
    with Some show ?thesis by (simp add: yield_from_def)
  qed
  have "for_each in_subarray ?body = (concat (map (\<lambda>k. fst (?body k)) in_subarray), None)"
    by (rule for_each_ok) (simp add: body)
  also have "map (\<lambda>k. fst (?body k)) in_subarray
      = map (\<lambda>k. case map_of contents k of Some (JArray xs) \<Rightarrow> xs | _ \<Rightarrow> []) in_subarray"
    by (rule map_cong) (simp_all add: body)
  finally show ?thesis
    by (simp add: schemas_in_subarray_def)
qed

lemma in_subvalues_loop:
  assumes "list_all (absent_or is_mapping contents) in_subvalues"
  shows "for_each in_subvalues
           (\<lambda>each. case map_of contents each of None \<Rightarrow> skip | Some v \<Rightarrow> yield_from (values_of v))
         = (schemas_in_subvalues in_subvalues contents, None)"
proof -
  let ?body = "\<lambda>each. case map_of contents each of None \<Rightarrow> skip | Some v \<Rightarrow> yield_from (values_of v)"
  have kinds: "\<forall>k \<in> set in_subvalues. \<forall>v. map_of contents k = Some v \<longrightarrow> is_mapping v"
    using assms by (auto simp: list_all_iff absent_or_def)
  have body: "?body k = (case map_of contents k of Some (JObject kvs) \<Rightarrow> map snd kvs | _ \<Rightarrow> [], None)"
    if "k \<in> set in_subvalues" for k
  proof (cases "map_of contents k")
    case None
    then show ?thesis by (simp add: skip_def)
  next
    case (Some v)
    with kinds that have "is_mapping v" by simp
    then obtain kvs where "v = JObject kvs" by (cases v) simp_all
    with Some show ?thesis by (simp add: yield_from_def)
  qed
  have "for_each in_subvalues ?body = (concat (map (\<lambda>k. fst (?body k)) in_subvalues), None)"
    by (rule for_each_ok) (simp add: body)
  also have "map (\<lambda>k. fst (?body k)) in_subvalues
      = map (\<lambda>k. case map_of contents k of Some (JObject kvs) \<Rightarrow> map snd kvs | _ \<Rightarrow> []) in_subvalues"
    by (rule map_cong) (simp_all add: body)
  finally show ?thesis
    by (simp add: schemas_in_subvalues_def)
qed

lemma subresources_of_factory_object:
  assumes "list_all (absent_or is_array contents) in_subarray"
    and "list_all (absent_or is_mapping contents) in_subvalues"
  shows "subresources_of_factory in_value in_subvalues in_subarray (SObject contents) =
     (schemas_in_value in_value contents @ schemas_in_subarray in_subarray contents
        @ schemas_in_subvalues in_subvalues contents, None)"
  by (simp add: in_value_loop in_subarray_loop [OF assms(1)] in_subvalues_loop [OF assms(2)]
        then_do_ok)

lemma set_iterationD:
  "set_iteration ord \<Longrightarrow> distinct xs \<Longrightarrow> set (ord xs) = set xs \<and> distinct (ord xs)"
  by (simp add: set_iteration_def)

lemma concat_map_absent: "\<forall>k \<in> set ks. f k = [] \<Longrightarrow> concat (map f ks) = []"
  by (induction ks) simp_all

lemma concat_map_only:
  "distinct ks \<Longrightarrow> k0 \<in> set ks \<Longrightarrow> \<forall>k \<in> set ks. k \<noteq> k0 \<longrightarrow> f k = [] \<Longrightarrow>
     concat (map f ks) = f k0"
proof (induction ks)
  case Nil
  then show ?case by simp
next
  case (Cons k ks)
  show ?case
  proof (cases "k = k0")
    case True
    with Cons.prems have "\<forall>k' \<in> set ks. f k' = []" by auto
    then have "concat (map f ks) = []" by (rule concat_map_absent)
    with True show ?thesis by simp
  next
    case False
    with Cons.prems have "k0 \<in> set ks" "distinct ks" "\<forall>k \<in> set ks. k \<noteq> k0 \<longrightarrow> f k = []" "f k = []"
      by auto
    with Cons.IH show ?thesis by simp
  qed
qed

lemma draft201909_example:
  assumes "set_iteration ord"
    and "defs = ''$defs'' \<or> defs = ''definitions''"
  shows "subresources_of (DRAFT201909 ord)
       (SObject [(''allOf'', JArray [JObject [(''a'', JNum 1)], JObject [(''b'', JNum 2)]]),
                 (defs, JObject [(''x'', JObject [(''c'', JNum 3)])])])
     = ([JObject [(''a'', JNum 1)], JObject [(''b'', JNum 2)]]
          @ (if defs = ''$defs'' then [JObject [(''c'', JNum 3)]] else []), None)"
proof -
  let ?node = "[(''allOf'', JArray [JObject [(''a'', JNum 1)], JObject [(''b'', JNum 2)]]),
                (defs, JObject [(''x'', JObject [(''c'', JNum 3)])])]"
  let ?in_value = "ord [''additionalProperties'', ''if'', ''then'', ''else'', ''not'']"
  let ?in_subarray = "ord [''allOf'', ''anyOf'', ''oneOf'']"
  let ?in_subvalues = "ord [''$defs'', ''properties'']"
  have v: "set ?in_value = {''additionalProperties'', ''if'', ''then'', ''else'', ''not''}"
    using set_iterationD [OF assms(1), of "[''additionalProperties'', ''if'', ''then'', ''else'', ''not'']"]
    by simp
  have a: "set ?in_subarray = {''allOf'', ''anyOf'', ''oneOf''} \<and> distinct ?in_subarray"
    using set_iterationD [OF assms(1), of "[''allOf'', ''anyOf'', ''oneOf'']"] by simp
  have m: "set ?in_subvalues = {''$defs'', ''properties''} \<and> distinct ?in_subvalues"
    using set_iterationD [OF assms(1), of "[''$defs'', ''properties'']"] by simp
  have kinds_a: "list_all (absent_or is_array ?node) ?in_subarray"
    using assms(2) a by (auto simp: list_all_iff absent_or_def)
  have kinds_m: "list_all (absent_or is_mapping ?node) ?in_subvalues"
    using assms(2) m by (auto simp: list_all_iff absent_or_def)
  have 1: "schemas_in_value ?in_value ?node = []"
    unfolding schemas_in_value_def
    by (rule concat_map_absent) (use assms(2) v in auto)
  have "schemas_in_subarray ?in_subarray ?node
      = (case map_of ?node ''allOf'' of Some (JArray xs) \<Rightarrow> xs | _ \<Rightarrow> [])"
    unfolding schemas_in_subarray_def
    by (rule concat_map_only) (use assms(2) a in auto)
  then have 2: "schemas_in_subarray ?in_subarray ?node
      = [JObject [(''a'', JNum 1)], JObject [(''b'', JNum 2)]]"
    by simp
  have "schemas_in_subvalues ?in_subvalues ?node
      = (case map_of ?node ''$defs'' of Some (JObject kvs) \<Rightarrow> map snd kvs | _ \<Rightarrow> [])"
    unfolding schemas_in_subvalues_def
    by (rule concat_map_only) (use assms(2) m in auto)
  then have 3: "schemas_in_subvalues ?in_subvalues ?node
      = (if defs = ''$defs'' then [JObject [(''c'', JNum 3)]] else [])"
    using assms(2) by auto
  show ?thesis
    using subresources_of_factory_object [OF kinds_a kinds_m, of ?in_value]
    by (simp add: DRAFT201909_def 1 2 3 del: subresources_of_factory.simps)
qed

text \<open>
  C5. For every dialect, sub-schema enumeration yields nothing on a boolean node. On an
  object node in which the keywords of \<^verbatim>\<open>in_subarray\<close> hold arrays and those of
  \<^verbatim>\<open>in_subvalues\<close> hold mappings, it ends without an exception and yields first the values
  of the \<^verbatim>\<open>in_value\<close> keywords that the node has, one for each, then the elements of the
  arrays of the \<^verbatim>\<open>in_subarray\<close> keywords, each array in its order, then the values of the
  mappings of the \<^verbatim>\<open>in_subvalues\<close> keywords, each mapping in its order; a keyword that
  the node lacks contributes nothing. The 2019-09 dialect reads \<^verbatim>\<open>$defs\<close>, not
  \<^verbatim>\<open>definitions\<close>: the node with \<^verbatim>\<open>allOf\<close> and \<^verbatim>\<open>$defs\<close> gives the three schemas in
  order, and the same node with \<^verbatim>\<open>definitions\<close> in its place gives the two schemas of
  \<^verbatim>\<open>allOf\<close> only. All of this holds in whatever order Python iterates the keyword sets.
\<close>

theorem subresources_of_order:
  assumes "set_iteration ord"
  shows
  "(\<forall>(D, in_value, in_subarray, in_subvalues) \<in>
      {(DRAFT202012 ord :: 's Specification, [], [], []),
       (DRAFT201909 ord,
          ord [''additionalProperties'', ''if'', ''then'', ''else'', ''not''],
          ord [''allOf'', ''anyOf'', ''oneOf''], ord [''$defs'', ''properties'']),
       (DRAFT7 ord,
          ord [''additionalProperties'', ''if'', ''then'', ''else'', ''not''],
          ord [''allOf'', ''anyOf'', ''oneOf''], ord [''definitions'', ''properties'']),
       (DRAFT6 ord,
          ord [''additionalProperties'', ''not''],
          ord [''allOf'', ''anyOf'', ''oneOf''], ord [''definitions'', ''properties'']),
       (DRAFT4 ord,
          ord [''additionalProperties'', ''not''],
          ord [''allOf'', ''anyOf'', ''oneOf''], ord [''definitions'', ''properties'']),
       (DRAFT3 ord,
          ord [''additionalProperties''],
          ord [''extends''], ord [''definitions'', ''properties''])}.
      subresources_of D (SBool b) = ([], None) \<and>
      (list_all (absent_or is_array contents) in_subarray \<and>
       list_all (absent_or is_mapping contents) in_subvalues \<longrightarrow>
         subresources_of D (SObject contents) =
           (schemas_in_value in_value contents @ schemas_in_subarray in_subarray contents
              @ schemas_in_subvalues in_subvalues contents, None))) \<and>
   subresources_of (DRAFT201909 ord :: 's Specification)
       (SObject [(''allOf'', JArray [JObject [(''a'', JNum 1)], JObject [(''b'', JNum 2)]]),
                 (''$defs'', JObject [(''x'', JObject [(''c'', JNum 3)])])])
     = ([JObject [(''a'', JNum 1)], JObject [(''b'', JNum 2)], JObject [(''c'', JNum 3)]], None) \<and>
   subresources_of (DRAFT201909 ord :: 's Specification)
       (SObject [(''allOf'', JArray [JObject [(''a'', JNum 1)], JObject [(''b'', JNum 2)]]),
                 (''definitions'', JObject [(''x'', JObject [(''c'', JNum 3)])])])
     = ([JObject [(''a'', JNum 1)], JObject [(''b'', JNum 2)]], None)"
proof -
  have table: "subresources_of_factory in_value in_subvalues in_subarray (SBool b) = ([], None) \<and>
      (list_all (absent_or is_array contents) in_subarray \<and>
       list_all (absent_or is_mapping contents) in_subvalues \<longrightarrow>
         subresources_of_factory in_value in_subvalues in_subarray (SObject contents) =
           (schemas_in_value in_value contents @ schemas_in_subarray in_subarray contents
              @ schemas_in_subvalues in_subvalues contents, None))"
    for in_value in_subvalues in_subarray
    using subresources_of_factory_object [of contents in_subarray in_subvalues in_value]
    by (simp add: skip_def del: subresources_of_factory.simps(2))
  have empty: "schemas_in_value [] contents = []" "schemas_in_subarray [] contents = []"
    "schemas_in_subvalues [] contents = []"
    by (simp_all add: schemas_in_value_def schemas_in_subarray_def schemas_in_subvalues_def)
  show ?thesis
    using draft201909_example [OF assms, of "''$defs''"]
      draft201909_example [OF assms, of "''definitions''"]
    by (simp add: DRAFT202012_def DRAFT201909_def DRAFT7_def DRAFT6_def DRAFT4_def DRAFT3_def
          table empty del: subresources_of_factory.simps)
qed

theorem subresources_of_order_witness:
  "set_iteration (\<lambda>xs. xs) \<and>
   subresources_of (DRAFT201909 (\<lambda>xs. xs) :: unit Specification)
       (SObject [(''allOf'', JArray [JObject [(''a'', JNum 1)], JObject [(''b'', JNum 2)]]),
                 (''$defs'', JObject [(''x'', JObject [(''c'', JNum 3)])])])
     = ([JObject [(''a'', JNum 1)], JObject [(''b'', JNum 2)], JObject [(''c'', JNum 3)]], None) \<and>
   subresources_of (DRAFT7 (\<lambda>xs. xs) :: unit Specification)
       (SObject [(''properties'', JObject [(''p'', JBool True), (''q'', JObject [])]),
                 (''oneOf'', JArray [JObject [(''a'', JNum 1)]]),
                 (''not'', JObject [(''b'', JNum 2)]),
                 (''title'', JString ''t'')])
     = ([JObject [(''b'', JNum 2)], JObject [(''a'', JNum 1)], JBool True, JObject []], None) \<and>
   subresources_of (DRAFT3 (\<lambda>xs. xs) :: unit Specification) (SBool True) = ([], None)"
proof -
  have order: "set_iteration (\<lambda>xs. xs)"
    by (simp add: set_iteration_def)
  show ?thesis
    using order
      subresources_of_order [OF order, where ?'s = unit, of True
        "[(''properties'', JObject [(''p'', JBool True), (''q'', JObject [])]),
          (''oneOf'', JArray [JObject [(''a'', JNum 1)]]),
          (''not'', JObject [(''b'', JNum 2)]),
          (''title'', JString ''t'')]"]
    by (simp add: absent_or_def schemas_in_value_def schemas_in_subarray_def
          schemas_in_subvalues_def)
qed

theorem subresources_of_definitions_counterexample:
  "subresources_of (DRAFT201909 (\<lambda>xs. xs) :: unit Specification)
       (SObject [(''allOf'', JArray [JObject [(''a'', JNum 1)], JObject [(''b'', JNum 2)]]),
                 (''definitions'', JObject [(''x'', JObject [(''c'', JNum 3)])])])
     = ([JObject [(''a'', JNum 1)], JObject [(''b'', JNum 2)]], None) \<and>
   subresources_of (DRAFT201909 (\<lambda>xs. xs) :: unit Specification)
       (SObject [(''allOf'', JArray [JObject [(''a'', JNum 1)], JObject [(''b'', JNum 2)]]),
                 (''definitions'', JObject [(''x'', JObject [(''c'', JNum 3)])])])
     \<noteq> ([JObject [(''a'', JNum 1)], JObject [(''b'', JNum 2)], JObject [(''c'', JNum 3)]], None)"
  by (simp add: DRAFT201909_def then_do_def skip_def yield_def yield_from_def)

section \<open>Where the extraction functions return\<close>

lemma well_typed_factory:
  assumes "well_typed_keywords contents" and "set_iteration ord"
    and "distinct arr" and "set arr \<subseteq> {''allOf'', ''anyOf'', ''oneOf'', ''extends''}"
    and "distinct vals" and "set vals \<subseteq> {''$defs'', ''definitions'', ''properties''}"
  shows "snd (subresources_of_factory in_value (ord vals) (ord arr) (SObject contents)) = None"
proof -
  have "set (ord arr) = set arr" and "set (ord vals) = set vals"
    using set_iterationD [OF assms(2)] assms(3,5) by simp_all
  with assms(1,4,6) have "list_all (absent_or is_array contents) (ord arr)"
    and "list_all (absent_or is_mapping contents) (ord vals)"
    by (auto simp: well_typed_keywords_def list_all_iff)
  then show ?thesis
    by (simp add: subresources_of_factory_object del: subresources_of_factory.simps)
qed

lemma well_typed_legacy_dollar_id:
  "well_typed_keywords contents \<Longrightarrow> \<exists>i. legacy_dollar_id (SObject contents) = Inr i"
  by (cases "map_of contents ''$id''")
    (auto simp: well_typed_keywords_def absent_or_def legacy_dollar_id_object
      simp del: legacy_dollar_id.simps split: json.split)

lemma well_typed_legacy_id:
  "well_typed_keywords contents \<Longrightarrow> \<exists>i. legacy_id (SObject contents) = Inr i"
  by (cases "map_of contents ''id''")
    (auto simp: well_typed_keywords_def absent_or_def legacy_id_object
      simp del: legacy_id.simps split: json.split)

lemma well_typed_legacy_anchor_in_dollar_id:
  "well_typed_keywords contents \<Longrightarrow>
     \<exists>as. legacy_anchor_in_dollar_id specification (SObject contents) = Inr as"
  by (cases "map_of contents ''$id''")
    (auto simp: well_typed_keywords_def absent_or_def legacy_anchor_in_dollar_id_object
      simp del: legacy_anchor_in_dollar_id.simps split: json.split list.split)

lemma well_typed_legacy_anchor_in_id:
  "well_typed_keywords contents \<Longrightarrow>
     \<exists>as. legacy_anchor_in_id specification (SObject contents) = Inr as"
  by (cases "map_of contents ''id''")
    (auto simp: well_typed_keywords_def absent_or_def legacy_anchor_in_id_object
      simp del: legacy_anchor_in_id.simps split: json.split list.split)

lemma anchor_2019_returns: "\<exists>as. anchor_2019 specification contents = Inr as"
  by (cases contents) (simp_all add: Let_def)

lemma dollar_id_returns: "\<exists>i. dollar_id contents = Inr i"
  by (cases contents) simp_all

text \<open>
  C3. On a boolean node, the three extraction functions of 2020-12, 2019-09, draft-07
  and draft-06 return nothing or the empty sequence, and so does the sub-schema
  enumeration of draft-04 and draft-03. Identifier extraction and anchor enumeration of
  draft-04 and draft-03 are written for object nodes: on a boolean node they raise
  \<^verbatim>\<open>TypeError\<close> and \<^verbatim>\<open>AttributeError\<close>. On an object node whose keywords hold values of
  their kinds, the three functions of all six dialects return without an exception.
\<close>

theorem extraction_total:
  assumes "set_iteration ord"
  shows
  "(\<forall>D \<in> {DRAFT202012 ord :: 's Specification, DRAFT201909 ord, DRAFT7 ord, DRAFT6 ord}.
      id_of D (SBool b) = Inr JNull \<and>
      subresources_of D (SBool b) = ([], None) \<and>
      anchors_in D specification (SBool b) = Inr []) \<and>
   (\<forall>D \<in> {DRAFT4 ord :: 's Specification, DRAFT3 ord}.
      subresources_of D (SBool b) = ([], None) \<and>
      id_of D (SBool b) = Inl TypeError \<and>
      anchors_in D specification (SBool b) = Inl AttributeError) \<and>
   (well_typed_keywords contents \<longrightarrow>
     (\<forall>D \<in> {DRAFT202012 ord :: 's Specification, DRAFT201909 ord, DRAFT7 ord, DRAFT6 ord,
             DRAFT4 ord, DRAFT3 ord}.
        (\<exists>i. id_of D (SObject contents) = Inr i) \<and>
        snd (subresources_of D (SObject contents)) = None \<and>
        (\<exists>as. anchors_in D specification (SObject contents) = Inr as)))"
proof -
  have booleans: "(\<forall>D \<in> {DRAFT202012 ord :: 's Specification, DRAFT201909 ord, DRAFT7 ord, DRAFT6 ord}.
      id_of D (SBool b) = Inr JNull \<and>
      subresources_of D (SBool b) = ([], None) \<and>
      anchors_in D specification (SBool b) = Inr [])"
    by (simp add: DRAFT202012_def DRAFT201909_def DRAFT7_def DRAFT6_def skip_def)
  have objects_only: "(\<forall>D \<in> {DRAFT4 ord :: 's Specification, DRAFT3 ord}.
      subresources_of D (SBool b) = ([], None) \<and>
      id_of D (SBool b) = Inl TypeError \<and>
      anchors_in D specification (SBool b) = Inl AttributeError)"
    by (simp add: DRAFT4_def DRAFT3_def skip_def)
  have objects: "(\<exists>i. id_of D (SObject contents) = Inr i) \<and>
        snd (subresources_of D (SObject contents)) = None \<and>
        (\<exists>as. anchors_in D specification (SObject contents) = Inr as)"
    if wt: "well_typed_keywords contents"
      and D: "D \<in> {DRAFT202012 ord :: 's Specification, DRAFT201909 ord, DRAFT7 ord, DRAFT6 ord,
             DRAFT4 ord, DRAFT3 ord}" for D
  proof -
    note ids = dollar_id_returns well_typed_legacy_dollar_id [OF wt] well_typed_legacy_id [OF wt]
    note anchors = anchor_2019_returns well_typed_legacy_anchor_in_dollar_id [OF wt]
      well_typed_legacy_anchor_in_id [OF wt]
    note subs = well_typed_factory [OF wt assms]
    from D consider "D = DRAFT202012 ord" | "D = DRAFT201909 ord" | "D = DRAFT7 ord"
      | "D = DRAFT6 ord" | "D = DRAFT4 ord" | "D = DRAFT3 ord"
      by auto
    then show ?thesis
    proof cases
      case 1
      then show ?thesis by (simp add: DRAFT202012_def ids)
    next
      case 2
      then show ?thesis
        by (simp add: DRAFT201909_def ids anchors subs
              del: subresources_of_factory.simps anchor_2019.simps dollar_id.simps)
    next
      case 3
      then show ?thesis
        by (simp add: DRAFT7_def ids anchors subs
              del: subresources_of_factory.simps legacy_dollar_id.simps
                legacy_anchor_in_dollar_id.simps)
    next
      case 4
      then show ?thesis
        by (simp add: DRAFT6_def ids anchors subs
              del: subresources_of_factory.simps legacy_dollar_id.simps
                legacy_anchor_in_dollar_id.simps)
    next
      case 5
      then show ?thesis
        by (simp add: DRAFT4_def ids anchors subs
              del: subresources_of_factory.simps legacy_id.simps legacy_anchor_in_id.simps)
    next
      case 6
      then show ?thesis
        by (simp add: DRAFT3_def ids anchors subs
              del: subresources_of_factory.simps legacy_id.simps legacy_anchor_in_id.simps)
    qed
  qed
  have all_objects: "well_typed_keywords contents \<longrightarrow>
     (\<forall>D \<in> {DRAFT202012 ord :: 's Specification, DRAFT201909 ord, DRAFT7 ord, DRAFT6 ord,
             DRAFT4 ord, DRAFT3 ord}.
        (\<exists>i. id_of D (SObject contents) = Inr i) \<and>
        snd (subresources_of D (SObject contents)) = None \<and>
        (\<exists>as. anchors_in D specification (SObject contents) = Inr as))"
    by (intro impI ballI, rule objects)
  show ?thesis
    by (rule conjI [OF booleans conjI [OF objects_only all_objects]])
qed

theorem extraction_total_witness:
  "set_iteration (\<lambda>xs. xs) \<and>
   well_typed_keywords [(''id'', JString ''#a''), (''extends'', JArray [JBool True]),
                        (''properties'', JObject [(''p'', JObject [])])] \<and>
   id_of (DRAFT4 (\<lambda>xs. xs) :: unit Specification) (SBool True) = Inl TypeError \<and>
   anchors_in (DRAFT3 (\<lambda>xs. xs)) () (SBool True) = Inl AttributeError \<and>
   id_of (DRAFT7 (\<lambda>xs. xs) :: unit Specification) (SBool True) = Inr JNull \<and>
   anchors_in (DRAFT6 (\<lambda>xs. xs)) () (SBool True) = Inr [] \<and>
   subresources_of (DRAFT4 (\<lambda>xs. xs) :: unit Specification) (SBool True) = ([], None) \<and>
   snd (subresources_of (DRAFT3 (\<lambda>xs. xs) :: unit Specification)
          (SObject [(''id'', JString ''#a''), (''extends'', JArray [JBool True]),
                    (''properties'', JObject [(''p'', JObject [])])])) = None \<and>
   (\<exists>as. anchors_in (DRAFT3 (\<lambda>xs. xs)) ()
          (SObject [(''id'', JString ''#a''), (''extends'', JArray [JBool True]),
                    (''properties'', JObject [(''p'', JObject [])])]) = Inr as)"
proof -
  have order: "set_iteration (\<lambda>xs. xs)"
    by (simp add: set_iteration_def)
  have typed: "well_typed_keywords [(''id'', JString ''#a''), (''extends'', JArray [JBool True]),
                        (''properties'', JObject [(''p'', JObject [])])]"
    by (simp add: well_typed_keywords_def absent_or_def)
  show ?thesis
    using order typed
      extraction_total [OF order, where ?'s = unit, of True "()"
        "[(''id'', JString ''#a''), (''extends'', JArray [JBool True]),
          (''properties'', JObject [(''p'', JObject [])])]"]
    by simp
qed

theorem legacy_boolean_counterexample:
  "id_of (DRAFT4 (\<lambda>xs. xs) :: unit Specification) (SBool True) = Inl TypeError \<and>
   id_of (DRAFT4 (\<lambda>xs. xs) :: unit Specification) (SBool True) \<noteq> Inr JNull \<and>
   id_of (DRAFT3 (\<lambda>xs. xs) :: unit Specification) (SBool True) = Inl TypeError \<and>
   anchors_in (DRAFT4 (\<lambda>xs. xs)) () (SBool True) = Inl AttributeError \<and>
   anchors_in (DRAFT4 (\<lambda>xs. xs)) () (SBool True) \<noteq> Inr [] \<and>
   anchors_in (DRAFT3 (\<lambda>xs. xs)) () (SBool True) = Inl AttributeError"
  by (simp add: DRAFT4_def DRAFT3_def)

end
